theory Spec2Isabelle
  imports Main
begin

section \<open>Values, errors and the foreign host\<close>

text \<open>
  The module \<open>binaryninjax\<close> binds private C++ functions of its host by mangled name and
  wraps Qt objects. Everything foreign (symbol resolution, the raw call through a bound
  address, the Qt meta-object data, the attributes of a wrapped Qt object, raw memory) is a
  parameter of the embedding, collected in the record \<open>host\<close>. Each interaction with the
  host is appended to a trace, so that "no foreign function is invoked" and "resolved at
  most once" are statements about that trace.

  The field \<open>foreign\<close> is the call of a raw callable \<open>func_sig(func_addr)\<close> on Python
  arguments: \<open>ctypes\<close> converts the arguments by the prototype, calls the address and
  converts the result, or raises (\<open>ArgumentError\<close> for an argument the prototype does not
  accept). What it returns or raises may depend on the interactions so far. The field
  \<open>contents_at\<close> is the pointer-sized word that \<open>ctypes\<close> reads at an address (it raises for
  the null pointer), and \<open>cast_other\<close> is \<open>ctypes.cast(v, c_void_p)\<close> for the values whose
  address the embedding does not know.
\<close>

datatype ctype = c_int | c_void_p | c_char_p | c_int64

text \<open>\<open>CFUNCTYPE(restype, *argtypes)\<close>; a restype of \<open>None\<close> is a void function.\<close>

datatype cfunctype = CFUNCTYPE "ctype option" "ctype list"

text \<open>\<open>func_sig(func_addr)\<close>: a raw callable bound to an address.\<close>

datatype cfunc = CFunc cfunctype int

text \<open>
  Python values. Addresses are Python integers. The two method proxies of the module carry
  a natural number standing for their object identity: two proxies are the identical
  object exactly when they are equal as values.
\<close>

datatype pyval =
    PyNone
  | PyInt int
  | PyBool bool
  | PyStr string
  | PyVoidP int
  | PyQObject int
  | PyQColor int
  | PyHandle string pyval
  | PyBinaryView pyval
  | CMethodProxy nat cfunc pyval
  | QMethodProxy nat int int string

text \<open>
  Exceptions. \<open>ArgumentError\<close> is the exception of \<open>ctypes\<close> for an argument that a
  prototype does not accept.
\<close>

datatype error =
    AttributeError string
  | TypeError string
  | KeyError string
  | ValueError string
  | ArgumentError string

datatype event =
    Resolve string
  | ForeignCall int cfunctype "pyval list"
  | InvokeMethod int int string "pyval list"
  | HostCall pyval "pyval list"
  | NewQColor
  | ConnectDestroyed int
  | InitCallback nat int
  | LogError
  | PrintStderr

record host =
  resolve_symbol :: "string \<Rightarrow> int option"
  foreign :: "event list \<Rightarrow> int \<Rightarrow> cfunctype \<Rightarrow> pyval list \<Rightarrow> error + pyval"
  sizeof_void_p :: int
  contents_at :: "event list \<Rightarrow> int \<Rightarrow> error + int"
  cast_other :: "pyval \<Rightarrow> error + pyval"
  metaObject :: "int \<Rightarrow> int"
  className :: "int \<Rightarrow> string"
  methodCount :: "int \<Rightarrow> nat"
  methodName :: "int \<Rightarrow> nat \<Rightarrow> string"
  propertyCount :: "int \<Rightarrow> nat"
  propertyName :: "int \<Rightarrow> nat \<Rightarrow> string"
  q_getattr :: "int \<Rightarrow> string \<Rightarrow> error + pyval"
  host_call :: "event list \<Rightarrow> pyval \<Rightarrow> pyval list \<Rightarrow> error + pyval"
  new_QColor :: "event list \<Rightarrow> int"
  callback_raises :: "event list \<Rightarrow> nat \<Rightarrow> bool"

section \<open>State of the module\<close>

text \<open>A \<open>_CStaticMethodProxy\<close>: name, signature and the binding made by the first call.\<close>

record static_proxy =
  func_name :: string
  func_sig :: cfunctype
  func :: "cfunc option"

text \<open>
  A \<open>_CObjectProxy\<close> instance: the two fields set by \<open>__init__\<close> and the attributes that
  \<open>setattr\<close> adds later. \<open>_QObjectProxy\<close> is its subclass and extends the record.
\<close>

record cobject_proxy =
  c_ptr :: pyval
  c_api :: "string \<rightharpoonup> string \<times> cfunctype"
  dict :: "string \<rightharpoonup> pyval"

record qobject_proxy = cobject_proxy +
  q_meta_object :: int
  q_object :: int

text \<open>
  The class-level state of a wrapper class (\<open>MainWindow\<close>, \<open>ViewFrame\<close>): its static
  meta-object, its C API table, the registered init callbacks (by number) and the set of
  widgets the event filter has already seen.
\<close>

record wrapper_class =
  cls_q_meta_object :: int
  cls_c_api :: "string \<rightharpoonup> string \<times> cfunctype"
  init_callbacks :: "nat list"
  init_set :: "int set"

text \<open>
  The module-level state: the class-level dictionaries \<open>_CObjectProxy._c_funcptrs\<close>,
  \<open>_QObjectProxy._q_methods\<close> and \<open>_QObjectProxy._q_properties\<close>; the static proxies
  \<open>_new\<close>, \<open>_delete\<close> and \<open>_getThemeColor\<close>; the dictionary \<open>_bn_new_ref_fns\<close>; the two
  wrapper classes the event filter serves; the counter that hands out object identities;
  and the trace of host interactions.
\<close>

record state =
  c_funcptrs :: "string \<rightharpoonup> int"
  q_methods :: "int \<rightharpoonup> string list"
  q_properties :: "int \<rightharpoonup> string list"
  new_proxy :: static_proxy
  delete_proxy :: static_proxy
  getThemeColor_proxy :: static_proxy
  bn_new_ref_fns :: "string \<rightharpoonup> static_proxy"
  MainWindow_cls :: wrapper_class
  ViewFrame_cls :: wrapper_class
  next_ref :: nat
  trace :: "event list"

definition squote :: string where
  "squote = [CHR 0x27]"

definition log_event :: "event \<Rightarrow> state \<Rightarrow> state" where
  "log_event e s = s\<lparr>trace := trace s @ [e]\<rparr>"

section \<open>Raw calls and static method proxies\<close>

text \<open>
  The call \<open>f(*args)\<close> of a raw callable. The trace records the call with the Python
  arguments it was given, also when \<open>ctypes\<close> raises.
\<close>

definition call_cfunc ::
  "host \<Rightarrow> cfunc \<Rightarrow> pyval list \<Rightarrow> state \<Rightarrow> (error + pyval) \<times> state" where
  "call_cfunc h f args s =
     (case f of CFunc fsig a \<Rightarrow>
        (foreign h (trace s) a fsig args, log_event (ForeignCall a fsig args) s))"

text \<open>\<open>_CStaticMethodProxy.__call__\<close>\<close>

definition CStaticMethodProxy_call ::
  "host \<Rightarrow> pyval list \<Rightarrow> static_proxy \<Rightarrow> state
     \<Rightarrow> (error + pyval) \<times> static_proxy \<times> state" where
  "CStaticMethodProxy_call h args self s =
     (case func self of
        None \<Rightarrow>
          (let s1 = log_event (Resolve (func_name self)) s in
           case resolve_symbol h (func_name self) of
             None \<Rightarrow>
               (Inl (AttributeError (''Symbol '' @ func_name self @ '' is not defined'')),
                self, s1)
           | Some func_addr \<Rightarrow>
               (let f = CFunc (func_sig self) func_addr;
                    (r, s2) = call_cfunc h f args s1
                in (r, self\<lparr>func := Some f\<rparr>, s2)))
      | Some f \<Rightarrow>
          (let (r, s2) = call_cfunc h f args s in (r, self, s2)))"

text \<open>\<open>_CMethodProxy.__call__\<close>\<close>

definition CMethodProxy_call ::
  "host \<Rightarrow> cfunc \<Rightarrow> pyval \<Rightarrow> pyval list \<Rightarrow> state \<Rightarrow> (error + pyval) \<times> state" where
  "CMethodProxy_call h f this_ptr args s = call_cfunc h f (this_ptr # args) s"

text \<open>\<open>_QMethodProxy.__call__\<close>: the result of \<open>invokeMethod\<close> is dropped.\<close>

definition QMethodProxy_call ::
  "int \<Rightarrow> int \<Rightarrow> string \<Rightarrow> pyval list \<Rightarrow> state \<Rightarrow> pyval \<times> state" where
  "QMethodProxy_call q_meta q_self name args s =
     (PyNone, log_event (InvokeMethod q_meta q_self name args) s)"

text \<open>
  Calling a value: the module's two proxies run their \<open>__call__\<close>; any other value
  (a bound method of a wrapped Qt object, say) is called by the host.
\<close>

definition py_call ::
  "host \<Rightarrow> pyval \<Rightarrow> pyval list \<Rightarrow> state \<Rightarrow> (error + pyval) \<times> state" where
  "py_call h v args s =
     (case v of
        CMethodProxy i f this_ptr \<Rightarrow> CMethodProxy_call h f this_ptr args s
      | QMethodProxy i q_meta q_self name \<Rightarrow>
          (let (r, s') = QMethodProxy_call q_meta q_self name args s in (Inr r, s'))
      | _ \<Rightarrow> (host_call h (trace s) v args, log_event (HostCall v args) s))"

section \<open>Object proxies\<close>

text \<open>\<open>_CObjectProxy.__getattr__\<close>\<close>

definition CObjectProxy_getattr ::
  "host \<Rightarrow> string \<Rightarrow> 'b cobject_proxy_scheme \<Rightarrow> state
     \<Rightarrow> (error + pyval) \<times> 'b cobject_proxy_scheme \<times> state" where
  "CObjectProxy_getattr h attr self s =
     (case c_api self attr of
        Some (fname, fsig) \<Rightarrow>
          (let (found, s1) =
                 (case c_funcptrs s fname of
                    None \<Rightarrow>
                      (let s0 = log_event (Resolve fname) s in
                       case resolve_symbol h fname of
                         None \<Rightarrow> (None, s0)
                       | Some func_addr \<Rightarrow>
                           (Some func_addr,
                            s0\<lparr>c_funcptrs := (c_funcptrs s0)(fname \<mapsto> func_addr)\<rparr>))
                  | Some func_addr \<Rightarrow> (Some func_addr, s))
           in case found of
                None \<Rightarrow>
                  (Inl (AttributeError (''Symbol '' @ fname @ '' is not defined'')), self, s1)
              | Some func_addr \<Rightarrow>
                  (let proxy = CMethodProxy (next_ref s1) (CFunc fsig func_addr) (c_ptr self)
                   in (Inr proxy,
                       self\<lparr>dict := (dict self)(attr \<mapsto> proxy)\<rparr>,
                       s1\<lparr>next_ref := Suc (next_ref s1)\<rparr>)))
      | None \<Rightarrow>
          (Inl (AttributeError (''undefined method '' @ squote @ attr @ squote)), self, s))"

text \<open>
  \<open>_QObjectProxy.__init__\<close>. The instance exists for the caller only when no exception
  leaves \<open>__init__\<close>.
\<close>

definition meta_method_names :: "host \<Rightarrow> int \<Rightarrow> string list" where
  "meta_method_names h m = map (methodName h m) [0..<methodCount h m]"

definition meta_property_names :: "host \<Rightarrow> int \<Rightarrow> string list" where
  "meta_property_names h m = map (propertyName h m) [0..<propertyCount h m]"

definition QObjectProxy_init ::
  "host \<Rightarrow> int \<Rightarrow> int \<Rightarrow> (string \<rightharpoonup> string \<times> cfunctype) \<Rightarrow> state
     \<Rightarrow> (error + qobject_proxy) \<times> state" where
  "QObjectProxy_init h q_meta q_obj api s =
     (if q_meta \<noteq> metaObject h q_obj then
        (Inl (TypeError (''proxy for '' @ squote @ className h q_meta @ squote
                 @ '' cannot be initialized from a pointer to ''
                 @ squote @ className h (metaObject h q_obj) @ squote)), s)
      else
        (let s1 = (if q_methods s q_meta = None
                   then s\<lparr>q_methods := (q_methods s)(q_meta \<mapsto> meta_method_names h q_meta)\<rparr>
                   else s);
             s2 = (if q_properties s1 q_meta = None
                   then s1\<lparr>q_properties :=
                             (q_properties s1)(q_meta \<mapsto> meta_property_names h q_meta)\<rparr>
                   else s1)
         in (Inr \<lparr>c_ptr = PyInt q_obj, c_api = api, dict = Map.empty,
                   q_meta_object = q_meta, q_object = q_obj\<rparr>, s2)))"

text \<open>\<open>_QObjectProxy.__getattr__\<close>\<close>

definition QObjectProxy_getattr ::
  "host \<Rightarrow> string \<Rightarrow> qobject_proxy \<Rightarrow> state
     \<Rightarrow> (error + pyval) \<times> qobject_proxy \<times> state" where
  "QObjectProxy_getattr h attr self s =
     (case q_methods s (q_meta_object self) of
        None \<Rightarrow> (Inl (KeyError (className h (q_meta_object self))), self, s)
      | Some names \<Rightarrow>
          if attr \<in> set names then
            (let proxy = QMethodProxy (next_ref s) (q_meta_object self) (q_object self) attr
             in (Inr proxy,
                 self\<lparr>dict := (dict self)(attr \<mapsto> proxy)\<rparr>,
                 s\<lparr>next_ref := Suc (next_ref s)\<rparr>))
          else if c_api self attr \<noteq> None then CObjectProxy_getattr h attr self s
          else (q_getattr h (q_object self) attr, self, s))"

text \<open>
  Attribute access \<open>obj.attr\<close> as Python performs it for the names these classes bind
  lazily: the instance dictionary first, \<open>__getattr__\<close> only when the name is not there.
  The field \<open>dict\<close> holds the attributes that \<open>setattr\<close> adds. The fields that \<open>__init__\<close>
  sets and the attributes of the class itself, which Python finds without asking
  \<open>__getattr__\<close>, are not among the names looked up here.
\<close>

definition CObjectProxy_lookup ::
  "host \<Rightarrow> string \<Rightarrow> 'b cobject_proxy_scheme \<Rightarrow> state
     \<Rightarrow> (error + pyval) \<times> 'b cobject_proxy_scheme \<times> state" where
  "CObjectProxy_lookup h attr self s =
     (case dict self attr of
        Some v \<Rightarrow> (Inr v, self, s)
      | None \<Rightarrow> CObjectProxy_getattr h attr self s)"

definition QObjectProxy_lookup ::
  "host \<Rightarrow> string \<Rightarrow> qobject_proxy \<Rightarrow> state
     \<Rightarrow> (error + pyval) \<times> qobject_proxy \<times> state" where
  "QObjectProxy_lookup h attr self s =
     (case dict self attr of
        Some v \<Rightarrow> (Inr v, self, s)
      | None \<Rightarrow> QObjectProxy_getattr h attr self s)"


definition QObjectProxy_invoke ::
  "host \<Rightarrow> string \<Rightarrow> pyval list \<Rightarrow> qobject_proxy \<Rightarrow> state
     \<Rightarrow> (error + pyval) \<times> qobject_proxy \<times> state" where
  "QObjectProxy_invoke h attr args self s =
     (case QObjectProxy_lookup h attr self s of
        (Inl e, self', s') \<Rightarrow> (Inl e, self', s')
      | (Inr f, self', s') \<Rightarrow> (let (r, s'') = py_call h f args s' in (r, self', s'')))"

section \<open>Static meta-objects by mangled name\<close>

text \<open>\<open>'{}'.format(n)\<close> for a length \<open>n\<close>: its decimal digits, most significant first.\<close>

definition digit_char :: "nat \<Rightarrow> char" where
  "digit_char d = ''0123456789'' ! d"

function str_of_nat :: "nat \<Rightarrow> string" where
  "str_of_nat n =
     (if n < 10 then [digit_char n] else str_of_nat (n div 10) @ [digit_char (n mod 10)])"
  by pat_completeness auto
termination
  by (relation "measure id") auto

declare str_of_nat.simps [simp del]

text \<open>
  \<open>sip.wrapinstance(addr, QtCore.QMetaObject)\<close>: a meta-object is identified with its
  address; \<open>sip\<close> rejects \<open>None\<close> in place of an address.
\<close>

definition wrapinstance :: "int option \<Rightarrow> error + int" where
  "wrapinstance addr =
     (case addr of
        Some a \<Rightarrow> Inr a
      | None \<Rightarrow> Inl (TypeError ''an integer is required''))"

text \<open>\<open>_q_meta_object_for_class\<close>\<close>

definition q_meta_object_for_class :: "host \<Rightarrow> string \<Rightarrow> error + int" where
  "q_meta_object_for_class h name =
     wrapinstance
       (resolve_symbol h (''_ZN'' @ str_of_nat (length name) @ name @ ''16staticMetaObjectE''))"

text \<open>
  The reading of a decimal numeral, most significant digit first: the value a string of
  digits denotes. It is the specification side of \<open>str_of_nat\<close>.
\<close>

definition digit_value :: "char \<Rightarrow> nat" where
  "digit_value ch = of_char ch - 48"

definition decimal_value :: "string \<Rightarrow> nat" where
  "decimal_value ds = foldl (\<lambda>acc ch. 10 * acc + digit_value ch) 0 ds"

definition is_digit :: "char \<Rightarrow> bool" where
  "is_digit ch = (ch \<in> set ''0123456789'')"

section \<open>Wrapper classes\<close>

text \<open>
  \<open>MainWindow\<close>, \<open>ViewFrame\<close>, \<open>InfoPanel\<close> and the views each hold one attribute, the
  proxy \<open>q\<close>; their \<open>__init__\<close> is \<open>self.q = _QObjectProxy(self._q_meta_object, q, self._c_api)\<close>.
\<close>

record widget =
  q :: qobject_proxy

definition Wrapper_init ::
  "host \<Rightarrow> wrapper_class \<Rightarrow> int \<Rightarrow> state \<Rightarrow> (error + widget) \<times> state" where
  "Wrapper_init h cls q_obj s =
     (case QObjectProxy_init h (cls_q_meta_object cls) q_obj (cls_c_api cls) s of
        (Inl e, s') \<Rightarrow> (Inl e, s')
      | (Inr p, s') \<Rightarrow> (Inr \<lparr>q = p\<rparr>, s'))"

text \<open>A method body without \<open>return\<close> yields \<open>None\<close>.\<close>

definition returns_None :: "error + pyval \<Rightarrow> error + pyval" where
  "returns_None r = (case r of Inl e \<Rightarrow> Inl e | Inr v \<Rightarrow> Inr PyNone)"

definition MainWindow_c_api :: "string \<rightharpoonup> string \<times> cfunctype" where
  "MainWindow_c_api = map_of
     [(''openFilename'', (''_ZN10MainWindow12openFilenameERK7QString'',
                          CFUNCTYPE (Some c_int) [c_void_p, c_void_p])),
      (''openUrl'', (''_ZN10MainWindow7openUrlERK4QUrl'',
                     CFUNCTYPE (Some c_int) [c_void_p, c_void_p])),
      (''getCurrentView'', (''_ZN10MainWindow14getCurrentViewEv'',
                            CFUNCTYPE (Some c_void_p) [c_void_p]))]"

text \<open>\<open>MainWindow.closeTab\<close>: \<open>self.q.closeTab()\<close>\<close>

definition MainWindow_closeTab ::
  "host \<Rightarrow> widget \<Rightarrow> state \<Rightarrow> (error + pyval) \<times> widget \<times> state" where
  "MainWindow_closeTab h self s =
     (let (r, q', s') = QObjectProxy_invoke h ''closeTab'' [] (q self) s
      in (returns_None r, self\<lparr>q := q'\<rparr>, s'))"

text \<open>\<open>MainWindow.closeAll\<close>: documented as "Closes all tabs", its body is \<open>self.q.closeTab()\<close>.\<close>

definition MainWindow_closeAll ::
  "host \<Rightarrow> widget \<Rightarrow> state \<Rightarrow> (error + pyval) \<times> widget \<times> state" where
  "MainWindow_closeAll h self s =
     (let (r, q', s') = QObjectProxy_invoke h ''closeTab'' [] (q self) s
      in (returns_None r, self\<lparr>q := q'\<rparr>, s'))"


section \<open>Native strings\<close>










section \<open>View frames and theme colours\<close>



definition ViewFrame_c_api :: "string \<rightharpoonup> string \<times> cfunctype" where
  "ViewFrame_c_api = map_of
     [(''back'', (''_ZN9ViewFrame4backEv'', CFUNCTYPE None [c_void_p])),
      (''forward'', (''_ZN9ViewFrame7forwardEv'', CFUNCTYPE None [c_void_p])),
      (''setViewType'', (''_ZN9ViewFrame11setViewTypeERK7QString'',
                         CFUNCTYPE (Some c_int) [c_void_p, c_void_p])),
      (''getCurrentView'', (''_ZN9ViewFrame14getCurrentViewEv'',
                            CFUNCTYPE (Some c_void_p) [c_void_p, c_void_p]))]"




section \<open>Binary views behind smart pointers\<close>




definition HexEditor_c_api :: "string \<rightharpoonup> string \<times> cfunctype" where
  "HexEditor_c_api = map_of
     [(''getData'', (''_ZN9HexEditor7getDataEv'', CFUNCTYPE (Some c_void_p) [c_void_p]))]"










section \<open>The application event filter\<close>










section \<open>Predicates on the host and the trace\<close>

text \<open>
  The foreign calls of a trace; a static proxy that is unbound or bound to the address
  its symbol resolves to; a C API symbol that resolves and is absent from the cache
  \<open>_c_funcptrs\<close> or cached at its address.
\<close>

definition is_ForeignCall :: "event \<Rightarrow> bool" where
  "is_ForeignCall e = (case e of ForeignCall a fsig args \<Rightarrow> True | _ \<Rightarrow> False)"

definition foreign_calls :: "event list \<Rightarrow> event list" where
  "foreign_calls tr = filter is_ForeignCall tr"

text \<open>The runs of init callbacks in a trace.\<close>

definition is_InitCallback :: "event \<Rightarrow> bool" where
  "is_InitCallback e = (case e of InitCallback cb obj \<Rightarrow> True | _ \<Rightarrow> False)"

definition callback_events :: "event list \<Rightarrow> event list" where
  "callback_events tr = filter is_InitCallback tr"




section \<open>Runs of attribute lookups\<close>

text \<open>
  An instance of either proxy class, attribute lookup on it, and a run of lookups over a
  collection of instances that share the module state: each step looks one name up on the
  instance at one index and leaves the instance as the lookup left it; an exception ends
  the step, not the run. \<open>resolutions name tr\<close> counts the calls \<open>resolve_symbol(name)\<close>
  in a trace.
\<close>

datatype proxy_obj = CObj cobject_proxy | QObj qobject_proxy

definition lookup ::
  "host \<Rightarrow> string \<Rightarrow> proxy_obj \<Rightarrow> state \<Rightarrow> (error + pyval) \<times> proxy_obj \<times> state" where
  "lookup h attr obj s =
     (case obj of
        CObj c \<Rightarrow> (case CObjectProxy_lookup h attr c s of (r, c', s') \<Rightarrow> (r, CObj c', s'))
      | QObj p \<Rightarrow> (case QObjectProxy_lookup h attr p s of (r, p', s') \<Rightarrow> (r, QObj p', s')))"

fun run_lookups ::
  "host \<Rightarrow> (nat \<times> string) list \<Rightarrow> proxy_obj list \<Rightarrow> state \<Rightarrow> proxy_obj list \<times> state" where
  "run_lookups h [] objs s = (objs, s)"
| "run_lookups h ((i, attr) # ops) objs s =
     (if i < length objs then
        (case lookup h attr (objs ! i) s of
           (r, obj', s') \<Rightarrow> run_lookups h ops (objs[i := obj']) s')
      else run_lookups h ops objs s)"

definition resolutions :: "string \<Rightarrow> event list \<Rightarrow> nat" where
  "resolutions name tr = length (filter (\<lambda>e. e = Resolve name) tr)"

section \<open>A concrete host for evaluation\<close>

text \<open>
  A small host on which the embedding can be run: eight symbols resolve, three Qt classes
  exist (meta-objects 100, 200 and 300), objects at addresses below 1000 belong to the
  first, those below 2000 to the second. Its raw callables check their arguments against
  the prototype in the manner of \<open>ctypes\<close>: an integer parameter takes an integer, a
  \<open>c_void_p\<close> parameter an integer, \<open>None\<close>, a string or a \<open>c_void_p\<close>, a \<open>c_char_p\<close>
  parameter \<open>None\<close> or a string. A void function returns \<open>None\<close>.
\<close>

definition fits :: "ctype \<Rightarrow> pyval \<Rightarrow> bool" where
  "fits t v =
     (case v of
        PyInt n \<Rightarrow> t \<noteq> c_char_p
      | PyBool b \<Rightarrow> t \<noteq> c_char_p
      | PyNone \<Rightarrow> t = c_void_p \<or> t = c_char_p
      | PyStr x \<Rightarrow> t = c_void_p \<or> t = c_char_p
      | PyVoidP p \<Rightarrow> t = c_void_p
      | _ \<Rightarrow> False)"

definition example_foreign :: "int \<Rightarrow> cfunctype \<Rightarrow> pyval list \<Rightarrow> error + pyval" where
  "example_foreign a fsig args =
     (case fsig of CFUNCTYPE restype argtypes \<Rightarrow>
        if list_all2 fits argtypes args then
          (case restype of
             None \<Rightarrow> Inr PyNone
           | Some t \<Rightarrow> Inr (PyInt (a + int (length args))))
        else Inl (ArgumentError ''wrong type''))"

definition example_host :: host where
  "example_host =
     \<lparr>resolve_symbol = map_of
        [(''_Znwm'', 4096), (''_ZdlPv'', 4112), (''_ZN7QStringC2EPKc'', 4128),
         (''_ZN7QStringD2Ev'', 4144), (''_ZN9HexEditor7getDataEv'', 4160),
         (''BNNewViewReference'', 4176), (''_Z13getThemeColor10ThemeColor'', 4192),
         (''_ZN9ViewFrame11setViewTypeERK7QString'', 4208)],
      foreign = (\<lambda>tr. example_foreign),
      sizeof_void_p = 8,
      contents_at = (\<lambda>tr a. if a = 0 then Inl (ValueError ''NULL pointer access'')
                            else Inr (a + 1)),
      cast_other = (\<lambda>v. Inl (ArgumentError ''wrong type'')),
      metaObject = (\<lambda>q. if q < 1000 then 100 else if q < 2000 then 200 else 300),
      className = (\<lambda>m. if m = 100 then ''MainWindow''
                        else if m = 200 then ''ViewFrame'' else ''HexEditor''),
      methodCount = (\<lambda>m. if m = 100 then 2 else 0),
      methodName = (\<lambda>m n. if n = 0 then ''closeTab'' else ''newTab''),
      propertyCount = (\<lambda>m. 0),
      propertyName = (\<lambda>m n. []),
      q_getattr = (\<lambda>q attr. if attr = ''show'' then Inr (PyQObject q)
                              else Inl (AttributeError attr)),
      host_call = (\<lambda>tr v args. Inr PyNone),
      new_QColor = (\<lambda>tr. 7000),
      callback_raises = (\<lambda>tr cb. cb = 13)\<rparr>"

definition unbound :: "string \<Rightarrow> cfunctype \<Rightarrow> static_proxy" where
  "unbound name fsig = \<lparr>func_name = name, func_sig = fsig, func = None\<rparr>"

text \<open>A wrapper class without a C API table, as \<open>InfoPanel\<close> is.\<close>

definition empty_class :: "int \<Rightarrow> wrapper_class" where
  "empty_class m =
     \<lparr>cls_q_meta_object = m, cls_c_api = Map.empty, init_callbacks = [], init_set = {}\<rparr>"

text \<open>
  The module's globals as the module body leaves them, given the static meta-objects of
  \<open>MainWindow\<close> and \<open>ViewFrame\<close>: empty dictionaries, the three static proxies unbound, the
  two classes with their C API tables, no callback and no widget seen.
\<close>

definition fresh_state :: "int \<Rightarrow> int \<Rightarrow> state" where
  "fresh_state mw vf =
     \<lparr>c_funcptrs = Map.empty, q_methods = Map.empty, q_properties = Map.empty,
      new_proxy = unbound ''_Znwm'' (CFUNCTYPE (Some c_void_p) [c_int]),
      delete_proxy = unbound ''_ZdlPv'' (CFUNCTYPE None [c_void_p]),
      getThemeColor_proxy =
        unbound ''_Z13getThemeColor10ThemeColor'' (CFUNCTYPE (Some c_int) [c_void_p, c_int]),
      bn_new_ref_fns = Map.empty,
      MainWindow_cls =
        \<lparr>cls_q_meta_object = mw, cls_c_api = MainWindow_c_api,
         init_callbacks = [], init_set = {}\<rparr>,
      ViewFrame_cls =
        \<lparr>cls_q_meta_object = vf, cls_c_api = ViewFrame_c_api,
         init_callbacks = [], init_set = {}\<rparr>,
      next_ref = 0,
      trace = []\<rparr>"

text \<open>
  A \<open>_CObjectProxy\<close> whose table binds \<open>f\<close> to a symbol the example host lacks and \<open>alloc\<close>
  to one it has.
\<close>

definition example_cobject :: cobject_proxy where
  "example_cobject =
     \<lparr>c_ptr = PyInt 1,
      c_api = map_of [(''f'', (''nosuch'', CFUNCTYPE None [c_void_p])),
                      (''alloc'', (''_Znwm'', CFUNCTYPE (Some c_void_p) [c_void_p, c_int]))],
      dict = Map.empty\<rparr>"

text \<open>
  A \<open>MainWindow\<close> wrapper around the Qt object at address 5 and the module state after its
  construction on the example host.
\<close>

definition example_window :: widget where
  "example_window =
     \<lparr>q = \<lparr>c_ptr = PyInt 5, c_api = MainWindow_c_api, dict = Map.empty,
             q_meta_object = 100, q_object = 5\<rparr>\<rparr>"

definition window_state :: state where
  "window_state =
     (fresh_state 100 200)\<lparr>q_methods := [100 \<mapsto> [''closeTab'', ''newTab'']],
                            q_properties := [100 \<mapsto> []]\<rparr>"

text \<open>
  A \<open>HexEditor\<close> wrapper around the Qt object at address 2005 and the module state after
  its construction as well.
\<close>

definition example_view :: widget where
  "example_view =
     \<lparr>q = \<lparr>c_ptr = PyInt 2005, c_api = HexEditor_c_api, dict = Map.empty,
             q_meta_object = 300, q_object = 2005\<rparr>\<rparr>"

definition view_state :: state where
  "view_state =
     (fresh_state 100 200)\<lparr>q_methods := [100 \<mapsto> [''closeTab'', ''newTab''], 300 \<mapsto> []],
                            q_properties := [100 \<mapsto> [], 300 \<mapsto> []]\<rparr>"






section \<open>Failure of symbol resolution\<close>

text \<open>
  C3. When \<open>resolve_symbol\<close> returns no address, the call of an unbound static proxy
  and the \<open>__getattr__\<close> of an object proxy raise \<open>AttributeError\<close> with the message
  "Symbol <name> is not defined". The proxy and the instance are returned as they were
  and the module state changes in nothing but the trace entry of the resolution attempt:
  no binding is stored, the cache \<open>_c_funcptrs\<close> gets no entry, the trace gets no foreign
  call. A name that is not a key of the C API table raises \<open>AttributeError\<close> with the state
  untouched.
\<close>

theorem undefined_symbol_raises:
  "(func sp = None \<and> resolve_symbol h (func_name sp) = None \<longrightarrow>
      CStaticMethodProxy_call h args sp s =
        (Inl (AttributeError (''Symbol '' @ func_name sp @ '' is not defined'')), sp,
         s\<lparr>trace := trace s @ [Resolve (func_name sp)]\<rparr>))
   \<and> (c_api self attr = Some (fname, fsig) \<and> c_funcptrs s fname = None
        \<and> resolve_symbol h fname = None \<longrightarrow>
      CObjectProxy_getattr h attr self s =
        (Inl (AttributeError (''Symbol '' @ fname @ '' is not defined'')), self,
         s\<lparr>trace := trace s @ [Resolve fname]\<rparr>))
   \<and> (c_api self attr = None \<longrightarrow>
      CObjectProxy_getattr h attr self s =
        (Inl (AttributeError (''undefined method '' @ squote @ attr @ squote)), self, s))"
  by (simp add: CStaticMethodProxy_call_def CObjectProxy_getattr_def log_event_def)

theorem undefined_symbol_raises_witness:
  "CStaticMethodProxy_call example_host [] (unbound ''nosuch'' (CFUNCTYPE None []))
       (fresh_state 100 200)
     = (Inl (AttributeError ''Symbol nosuch is not defined''),
        unbound ''nosuch'' (CFUNCTYPE None []),
        (fresh_state 100 200)\<lparr>trace := [Resolve ''nosuch'']\<rparr>)
   \<and> CObjectProxy_getattr example_host ''f'' example_cobject (fresh_state 100 200)
     = (Inl (AttributeError ''Symbol nosuch is not defined''), example_cobject,
        (fresh_state 100 200)\<lparr>trace := [Resolve ''nosuch'']\<rparr>)
   \<and> CObjectProxy_getattr example_host ''g'' example_cobject (fresh_state 100 200)
     = (Inl (AttributeError (''undefined method '' @ squote @ ''g'' @ squote)),
        example_cobject, fresh_state 100 200)"
  using undefined_symbol_raises [of "unbound ''nosuch'' (CFUNCTYPE None [])" example_host "[]"
          "fresh_state 100 200" example_cobject "''f''" "''nosuch''" "CFUNCTYPE None [c_void_p]"]
        undefined_symbol_raises [of "unbound ''nosuch'' (CFUNCTYPE None [])" example_host "[]"
          "fresh_state 100 200" example_cobject "''g''" "''nosuch''" "CFUNCTYPE None [c_void_p]"]
  by (simp add: unbound_def example_host_def fresh_state_def example_cobject_def)

section \<open>The mangled name of a static meta-object\<close>

lemma digit_cases: "d < (10::nat) \<Longrightarrow> d = 0 \<or> d = 1 \<or> d = 2 \<or> d = 3 \<or> d = 4 \<or> d = 5 \<or> d = 6 \<or> d = 7 \<or> d = 8 \<or> d = 9"
  by arith

lemma digit_value_digit_char: "d < 10 \<Longrightarrow> digit_value (digit_char d) = d"
  using digit_cases [of d] by (auto simp: digit_value_def digit_char_def)

lemma is_digit_digit_char: "d < 10 \<Longrightarrow> is_digit (digit_char d)"
  using digit_cases [of d] by (auto simp: is_digit_def digit_char_def)

lemma decimal_value_snoc: "decimal_value (ds @ [ch]) = 10 * decimal_value ds + digit_value ch"
  by (simp add: decimal_value_def)

lemma decimal_value_str_of_nat: "decimal_value (str_of_nat n) = n"
proof (induction n rule: str_of_nat.induct)
  case (1 n)
  show ?case
  proof (cases "n < 10")
    case True
    then show ?thesis
      by (simp add: str_of_nat.simps [of n] decimal_value_def digit_value_digit_char)
  next
    case False
    with 1 have "decimal_value (str_of_nat (n div 10)) = n div 10" by simp
    with False show ?thesis
      by (simp add: str_of_nat.simps [of n] decimal_value_snoc digit_value_digit_char)
  qed
qed

lemma digits_str_of_nat: "list_all is_digit (str_of_nat n)"
proof (induction n rule: str_of_nat.induct)
  case (1 n)
  show ?case
  proof (cases "n < 10")
    case True
    then show ?thesis by (simp add: str_of_nat.simps [of n] is_digit_digit_char)
  next
    case False
    with 1 have "list_all is_digit (str_of_nat (n div 10))" by simp
    with False show ?thesis by (simp add: str_of_nat.simps [of n] is_digit_digit_char)
  qed
qed

lemma symbol_MainWindow:
  "''_ZN'' @ str_of_nat (length ''MainWindow'') @ ''MainWindow'' @ ''16staticMetaObjectE''
     = ''_ZN10MainWindow16staticMetaObjectE''"
  by (simp add: str_of_nat.simps digit_char_def)

lemma symbol_ViewFrame:
  "''_ZN'' @ str_of_nat (length ''ViewFrame'') @ ''ViewFrame'' @ ''16staticMetaObjectE''
     = ''_ZN9ViewFrame16staticMetaObjectE''"
  by (simp add: str_of_nat.simps digit_char_def)

lemma symbol_CrossReferenceItemDelegate:
  "''_ZN'' @ str_of_nat (length ''CrossReferenceItemDelegate'') @ ''CrossReferenceItemDelegate''
       @ ''16staticMetaObjectE''
     = ''_ZN26CrossReferenceItemDelegate16staticMetaObjectE''"
  by (simp add: str_of_nat.simps digit_char_def)

text \<open>
  C6. For every class name \<open>S\<close> the static meta-object is the wrapped result of resolving
  the symbol \<open>"_ZN" + decimal(len(S)) + S + "16staticMetaObjectE"\<close>: the digits produced
  for the length are decimal digits and denote exactly the length, a resolved address
  is wrapped as it is, and for the class names of the module the symbols are the
  expected ones.
\<close>

theorem static_meta_object_symbol:
  "q_meta_object_for_class h S =
     wrapinstance (resolve_symbol h (''_ZN'' @ str_of_nat (length S) @ S @ ''16staticMetaObjectE''))
   \<and> wrapinstance (Some a) = Inr a
   \<and> decimal_value (str_of_nat (length S)) = length S
   \<and> list_all is_digit (str_of_nat (length S))
   \<and> q_meta_object_for_class h ''MainWindow'' =
       wrapinstance (resolve_symbol h ''_ZN10MainWindow16staticMetaObjectE'')
   \<and> q_meta_object_for_class h ''ViewFrame'' =
       wrapinstance (resolve_symbol h ''_ZN9ViewFrame16staticMetaObjectE'')
   \<and> q_meta_object_for_class h ''CrossReferenceItemDelegate'' =
       wrapinstance (resolve_symbol h ''_ZN26CrossReferenceItemDelegate16staticMetaObjectE'')"
  unfolding q_meta_object_for_class_def symbol_MainWindow symbol_ViewFrame
    symbol_CrossReferenceItemDelegate
  by (simp add: wrapinstance_def decimal_value_str_of_nat digits_str_of_nat)

section \<open>Construction of a Qt object proxy\<close>

text \<open>
  C8. Constructing a \<open>_QObjectProxy\<close> (and so a wrapper built on it) from a Qt object whose
  meta-object differs from the expected static meta-object raises \<open>TypeError\<close> naming both
  classes, produces no proxy and leaves the module state as it was; when the meta-objects
  agree the construction succeeds and the proxy holds exactly the given object, its
  address as \<open>_c_ptr\<close>, the given table and an empty attribute dictionary.
\<close>

theorem QObjectProxy_init_checks_meta_object:
  "(q_meta \<noteq> metaObject h q_obj \<longrightarrow>
      QObjectProxy_init h q_meta q_obj api s =
        (Inl (TypeError (''proxy for '' @ squote @ className h q_meta @ squote
                 @ '' cannot be initialized from a pointer to ''
                 @ squote @ className h (metaObject h q_obj) @ squote)), s))
   \<and> (q_meta = metaObject h q_obj \<longrightarrow>
        fst (QObjectProxy_init h q_meta q_obj api s) =
          Inr \<lparr>c_ptr = PyInt q_obj, c_api = api, dict = Map.empty,
                q_meta_object = q_meta, q_object = q_obj\<rparr>)
   \<and> (cls_q_meta_object cls \<noteq> metaObject h q_obj \<longrightarrow>
        Wrapper_init h cls q_obj s =
          (Inl (TypeError (''proxy for '' @ squote @ className h (cls_q_meta_object cls) @ squote
                 @ '' cannot be initialized from a pointer to ''
                 @ squote @ className h (metaObject h q_obj) @ squote)), s))
   \<and> (cls_q_meta_object cls = metaObject h q_obj \<longrightarrow>
        fst (Wrapper_init h cls q_obj s) =
          Inr \<lparr>q = \<lparr>c_ptr = PyInt q_obj, c_api = cls_c_api cls, dict = Map.empty,
                      q_meta_object = cls_q_meta_object cls, q_object = q_obj\<rparr>\<rparr>)"
  by (simp add: QObjectProxy_init_def Wrapper_init_def Let_def)

theorem QObjectProxy_init_checks_meta_object_witness:
  "QObjectProxy_init example_host 200 5 MainWindow_c_api (fresh_state 100 200) =
     (Inl (TypeError (''proxy for '' @ squote @ ''ViewFrame'' @ squote
              @ '' cannot be initialized from a pointer to ''
              @ squote @ ''MainWindow'' @ squote)), fresh_state 100 200)
   \<and> fst (QObjectProxy_init example_host 100 5 MainWindow_c_api (fresh_state 100 200)) =
       Inr (q example_window)
   \<and> fst (Wrapper_init example_host (empty_class 200) 5 (fresh_state 100 200)) =
       Inl (TypeError (''proxy for '' @ squote @ ''ViewFrame'' @ squote
              @ '' cannot be initialized from a pointer to ''
              @ squote @ ''MainWindow'' @ squote))
   \<and> fst (Wrapper_init example_host
             ((empty_class 100)\<lparr>cls_c_api := MainWindow_c_api\<rparr>) 5 (fresh_state 100 200)) =
       Inr example_window"
  using QObjectProxy_init_checks_meta_object [of 200 example_host 5 MainWindow_c_api
          "fresh_state 100 200" "empty_class 200"]
        QObjectProxy_init_checks_meta_object [of 100 example_host 5 MainWindow_c_api
          "fresh_state 100 200" "(empty_class 100)\<lparr>cls_c_api := MainWindow_c_api\<rparr>"]
  by (simp add: example_host_def example_window_def empty_class_def)

lemma example_window_state:
  "snd (QObjectProxy_init example_host 100 5 MainWindow_c_api (fresh_state 100 200)) = window_state"
  by (simp add: QObjectProxy_init_def example_host_def fresh_state_def window_state_def Let_def
      meta_method_names_def meta_property_names_def upt_conv_Cons)

section \<open>Attribute lookup on a Qt object proxy\<close>

lemma CObjectProxy_getattr_cached:
  "c_api self attr = Some (fname, fsig) \<Longrightarrow> c_funcptrs s fname = Some a \<Longrightarrow>
   CObjectProxy_getattr h attr self s =
     (Inr (CMethodProxy (next_ref s) (CFunc fsig a) (c_ptr self)),
      self\<lparr>dict := (dict self)(attr \<mapsto> CMethodProxy (next_ref s) (CFunc fsig a) (c_ptr self))\<rparr>,
      s\<lparr>next_ref := Suc (next_ref s)\<rparr>)"
  by (simp add: CObjectProxy_getattr_def Let_def)

lemma CObjectProxy_getattr_resolved:
  "c_api self attr = Some (fname, fsig) \<Longrightarrow> c_funcptrs s fname = None \<Longrightarrow>
   resolve_symbol h fname = Some a \<Longrightarrow>
   CObjectProxy_getattr h attr self s =
     (Inr (CMethodProxy (next_ref s) (CFunc fsig a) (c_ptr self)),
      self\<lparr>dict := (dict self)(attr \<mapsto> CMethodProxy (next_ref s) (CFunc fsig a) (c_ptr self))\<rparr>,
      s\<lparr>c_funcptrs := (c_funcptrs s)(fname \<mapsto> a), next_ref := Suc (next_ref s),
         trace := trace s @ [Resolve fname]\<rparr>)"
  by (simp add: CObjectProxy_getattr_def log_event_def Let_def)

lemma CObjectProxy_getattr_unresolved:
  "c_api self attr = Some (fname, fsig) \<Longrightarrow> c_funcptrs s fname = None \<Longrightarrow>
   resolve_symbol h fname = None \<Longrightarrow>
   CObjectProxy_getattr h attr self s =
     (Inl (AttributeError (''Symbol '' @ fname @ '' is not defined'')), self,
      s\<lparr>trace := trace s @ [Resolve fname]\<rparr>)"
  by (simp add: CObjectProxy_getattr_def log_event_def Let_def)

text \<open>
  C1, as the code has it. On a constructed \<open>_QObjectProxy\<close> (its meta-object's method
  names are in \<open>_q_methods\<close>), \<open>__getattr__\<close> resolves a name in this order: a name among
  the Qt meta-object method names yields a \<open>_QMethodProxy\<close>, stored on the instance;
  otherwise a key of the C API table is handed to \<open>_CObjectProxy.__getattr__\<close>, which
  yields a \<open>_CMethodProxy\<close> bound to the cached or newly resolved address and raises
  \<open>AttributeError\<close> when the symbol does not resolve; otherwise the result is whatever
  \<open>getattr\<close> on the wrapped Qt object gives.
\<close>

theorem QObjectProxy_getattr_resolution_order:
  assumes "q_methods s (q_meta_object self) = Some (meta_method_names h (q_meta_object self))"
  shows
  "(attr \<in> set (meta_method_names h (q_meta_object self)) \<longrightarrow>
      QObjectProxy_getattr h attr self s =
        (Inr (QMethodProxy (next_ref s) (q_meta_object self) (q_object self) attr),
         self\<lparr>dict := (dict self)(attr \<mapsto>
                  QMethodProxy (next_ref s) (q_meta_object self) (q_object self) attr)\<rparr>,
         s\<lparr>next_ref := Suc (next_ref s)\<rparr>))
   \<and> (attr \<notin> set (meta_method_names h (q_meta_object self))
        \<and> c_api self attr = Some (fname, fsig) \<and> c_funcptrs s fname = Some a \<longrightarrow>
      QObjectProxy_getattr h attr self s =
        (Inr (CMethodProxy (next_ref s) (CFunc fsig a) (c_ptr self)),
         self\<lparr>dict := (dict self)(attr \<mapsto>
                  CMethodProxy (next_ref s) (CFunc fsig a) (c_ptr self))\<rparr>,
         s\<lparr>next_ref := Suc (next_ref s)\<rparr>))
   \<and> (attr \<notin> set (meta_method_names h (q_meta_object self))
        \<and> c_api self attr = Some (fname, fsig) \<and> c_funcptrs s fname = None
        \<and> resolve_symbol h fname = Some a \<longrightarrow>
      QObjectProxy_getattr h attr self s =
        (Inr (CMethodProxy (next_ref s) (CFunc fsig a) (c_ptr self)),
         self\<lparr>dict := (dict self)(attr \<mapsto>
                  CMethodProxy (next_ref s) (CFunc fsig a) (c_ptr self))\<rparr>,
         s\<lparr>c_funcptrs := (c_funcptrs s)(fname \<mapsto> a), next_ref := Suc (next_ref s),
            trace := trace s @ [Resolve fname]\<rparr>))
   \<and> (attr \<notin> set (meta_method_names h (q_meta_object self))
        \<and> c_api self attr = Some (fname, fsig) \<and> c_funcptrs s fname = None
        \<and> resolve_symbol h fname = None \<longrightarrow>
      QObjectProxy_getattr h attr self s =
        (Inl (AttributeError (''Symbol '' @ fname @ '' is not defined'')), self,
         s\<lparr>trace := trace s @ [Resolve fname]\<rparr>))
   \<and> (attr \<notin> set (meta_method_names h (q_meta_object self)) \<and> c_api self attr = None \<longrightarrow>
      QObjectProxy_getattr h attr self s = (q_getattr h (q_object self) attr, self, s))"
  using assms
  by (simp add: QObjectProxy_getattr_def Let_def CObjectProxy_getattr_cached
        CObjectProxy_getattr_resolved CObjectProxy_getattr_unresolved)

lemma example_method_names: "meta_method_names example_host 100 = [''closeTab'', ''newTab'']"
  by (simp add: meta_method_names_def example_host_def upt_conv_Cons)


lemma example_method_names_view: "meta_method_names example_host 300 = []"
  by (simp add: meta_method_names_def example_host_def)

theorem QObjectProxy_getattr_resolution_order_witness:
  "fst (QObjectProxy_getattr example_host ''closeTab'' (q example_window) window_state)
     = Inr (QMethodProxy 0 100 5 ''closeTab'')
   \<and> fst (QObjectProxy_getattr example_host ''getData'' (q example_view) view_state)
     = Inr (CMethodProxy 0 (CFunc (CFUNCTYPE (Some c_void_p) [c_void_p]) 4160) (PyInt 2005))
   \<and> fst (QObjectProxy_getattr example_host ''getCurrentView'' (q example_window) window_state)
     = Inl (AttributeError ''Symbol _ZN10MainWindow14getCurrentViewEv is not defined'')
   \<and> fst (QObjectProxy_getattr example_host ''show'' (q example_window) window_state)
     = Inr (PyQObject 5)"
proof -
  have w: "q_methods window_state (q_meta_object (q example_window))
             = Some (meta_method_names example_host (q_meta_object (q example_window)))"
    by (simp add: window_state_def example_window_def example_method_names)
  have v: "q_methods view_state (q_meta_object (q example_view))
             = Some (meta_method_names example_host (q_meta_object (q example_view)))"
    by (simp add: view_state_def example_view_def example_method_names_view)
  note a = QObjectProxy_getattr_resolution_order [OF w, where attr = "''closeTab''"]
  note b = QObjectProxy_getattr_resolution_order [OF v, where attr = "''getData''"
             and fname = "''_ZN9HexEditor7getDataEv''"
             and fsig = "CFUNCTYPE (Some c_void_p) [c_void_p]" and a = 4160]
  note c = QObjectProxy_getattr_resolution_order [OF w, where attr = "''getCurrentView''"
             and fname = "''_ZN10MainWindow14getCurrentViewEv''"
             and fsig = "CFUNCTYPE (Some c_void_p) [c_void_p]"]
  note d = QObjectProxy_getattr_resolution_order [OF w, where attr = "''show''"]
  have names: "meta_method_names example_host (q_meta_object (q example_window))
                 = [''closeTab'', ''newTab'']"
               "meta_method_names example_host (q_meta_object (q example_view)) = []"
    by (simp_all add: example_window_def example_view_def example_method_names
          example_method_names_view)
  from a b c d show ?thesis
    unfolding names
    by (simp add: example_window_def example_view_def window_state_def view_state_def
          fresh_state_def MainWindow_c_api_def HexEditor_c_api_def example_host_def)
qed

theorem QObjectProxy_getattr_unresolved_counterexample:
  "''getCurrentView'' \<notin> set (meta_method_names example_host (q_meta_object (q example_window)))
   \<and> c_api (q example_window) ''getCurrentView''
       = Some (''_ZN10MainWindow14getCurrentViewEv'', CFUNCTYPE (Some c_void_p) [c_void_p])
   \<and> dict (q example_window) ''getCurrentView'' = None
   \<and> QObjectProxy_getattr example_host ''getCurrentView'' (q example_window) window_state
       = (Inl (AttributeError ''Symbol _ZN10MainWindow14getCurrentViewEv is not defined''),
          q example_window,
          window_state\<lparr>trace := [Resolve ''_ZN10MainWindow14getCurrentViewEv'']\<rparr>)"
proof -
  have names: "meta_method_names example_host (q_meta_object (q example_window))
                 = [''closeTab'', ''newTab'']"
    by (simp add: example_window_def example_method_names)
  show ?thesis
    unfolding names
    by (simp add: QObjectProxy_getattr_def CObjectProxy_getattr_def Let_def log_event_def
          example_window_def window_state_def fresh_state_def MainWindow_c_api_def
          example_host_def)
qed

section \<open>Closing tabs\<close>

text \<open>
  C9. \<open>MainWindow.closeAll\<close> and \<open>MainWindow.closeTab\<close> are the same function of the
  embedding: both look up \<open>closeTab\<close> on the wrapped window and call it. Where \<open>closeTab\<close>
  is a Qt meta-method not yet stored on the instance, the one call each of them makes is
  \<open>invokeMethod\<close> of \<open>closeTab\<close>, without arguments, on the wrapped window object.
\<close>

theorem closeAll_is_closeTab:
  "MainWindow_closeAll = MainWindow_closeTab
   \<and> (q_methods s (q_meta_object (q self))
          = Some (meta_method_names h (q_meta_object (q self)))
        \<and> ''closeTab'' \<in> set (meta_method_names h (q_meta_object (q self)))
        \<and> dict (q self) ''closeTab'' = None \<longrightarrow>
      MainWindow_closeAll h self s =
        (Inr PyNone,
         self\<lparr>q := (q self)\<lparr>dict := (dict (q self))(''closeTab'' \<mapsto>
                  QMethodProxy (next_ref s) (q_meta_object (q self)) (q_object (q self))
                    ''closeTab'')\<rparr>\<rparr>,
         s\<lparr>next_ref := Suc (next_ref s),
            trace := trace s @ [InvokeMethod (q_meta_object (q self)) (q_object (q self))
                                  ''closeTab'' []]\<rparr>))"
proof -
  have "MainWindow_closeAll = MainWindow_closeTab"
    by (intro ext) (simp add: MainWindow_closeAll_def MainWindow_closeTab_def)
  then show ?thesis
    by (simp add: MainWindow_closeTab_def QObjectProxy_invoke_def QObjectProxy_lookup_def
          QObjectProxy_getattr_def py_call_def QMethodProxy_call_def log_event_def
          returns_None_def Let_def)
qed

theorem closeAll_is_closeTab_witness:
  "MainWindow_closeAll example_host example_window window_state =
     (Inr PyNone,
      example_window\<lparr>q := (q example_window)\<lparr>dict :=
         [''closeTab'' \<mapsto> QMethodProxy 0 100 5 ''closeTab'']\<rparr>\<rparr>,
      window_state\<lparr>next_ref := 1, trace := [InvokeMethod 100 5 ''closeTab'' []]\<rparr>)
   \<and> MainWindow_closeTab example_host example_window window_state =
       MainWindow_closeAll example_host example_window window_state"
proof -
  have names: "meta_method_names example_host (q_meta_object (q example_window))
                 = [''closeTab'', ''newTab'']"
    by (simp add: example_window_def example_method_names)
  from closeAll_is_closeTab [of window_state example_window example_host]
  show ?thesis
    unfolding names
    by (auto simp add: example_window_def window_state_def fresh_state_def)
qed

section \<open>Calls through raw callables\<close>




lemma foreign_calls_simps [simp]:
  "foreign_calls [] = []"
  "foreign_calls (tr @ tr') = foreign_calls tr @ foreign_calls tr'"
  "foreign_calls (ForeignCall a fsig args # tr) = ForeignCall a fsig args # foreign_calls tr"
  "foreign_calls (Resolve n # tr) = foreign_calls tr"
  "foreign_calls (InvokeMethod m qo n args # tr) = foreign_calls tr"
  "foreign_calls (NewQColor # tr) = foreign_calls tr"
  "foreign_calls (LogError # tr) = foreign_calls tr"
  "foreign_calls (PrintStderr # tr) = foreign_calls tr"
  by (simp_all add: foreign_calls_def is_ForeignCall_def)





section \<open>Native strings and their ownership\<close>









section \<open>Forwarding of calls\<close>








section \<open>Binary views of the view classes\<close>









section \<open>Repeated attribute lookups\<close>

lemma CObjectProxy_getattr_stores:
  assumes "CObjectProxy_getattr h attr self s = (Inr v, self', s')"
  shows "dict self' attr = Some v"
  using assms
  by (auto simp: CObjectProxy_getattr_def Let_def split: option.splits prod.splits)

lemma CObjectProxy_lookup_stores:
  assumes "CObjectProxy_lookup h attr self s = (Inr v, self', s')"
  shows "dict self' attr = Some v"
proof (cases "dict self attr")
  case None
  with assms show ?thesis
    by (simp add: CObjectProxy_lookup_def CObjectProxy_getattr_stores)
next
  case (Some w)
  with assms show ?thesis by (auto simp: CObjectProxy_lookup_def)
qed

lemma QObjectProxy_lookup_stores:
  assumes "QObjectProxy_lookup h attr self s = (Inr v, self', s')"
    and "dict self attr \<noteq> None
         \<or> (\<exists>names. q_methods s (q_meta_object self) = Some names \<and> attr \<in> set names)
         \<or> c_api self attr \<noteq> None"
  shows "dict self' attr = Some v"
proof (cases "dict self attr")
  case (Some w)
  with assms show ?thesis by (auto simp: QObjectProxy_lookup_def)
next
  case None
  with assms have g: "QObjectProxy_getattr h attr self s = (Inr v, self', s')"
    by (simp add: QObjectProxy_lookup_def)
  show ?thesis
  proof (cases "q_methods s (q_meta_object self)")
    case None
    with g show ?thesis by (simp add: QObjectProxy_getattr_def)
  next
    case (Some names)
    show ?thesis
    proof (cases "attr \<in> set names")
      case True
      with g Some show ?thesis by (auto simp: QObjectProxy_getattr_def Let_def)
    next
      case False
      with assms(2) Some \<open>dict self attr = None\<close> have "c_api self attr \<noteq> None" by auto
      with g Some False have "CObjectProxy_getattr h attr self s = (Inr v, self', s')"
        by (simp add: QObjectProxy_getattr_def)
      then show ?thesis by (rule CObjectProxy_getattr_stores)
    qed
  qed
qed

lemma resolutions_simps [simp]:
  "resolutions name [] = 0"
  "resolutions name (tr @ [Resolve fname]) =
     (if fname = name then Suc (resolutions name tr) else resolutions name tr)"
  by (auto simp: resolutions_def)

lemma CObjectProxy_getattr_effect:
  assumes "CObjectProxy_getattr h attr self s = (r, self', s')"
  shows "(trace s' = trace s \<and> c_funcptrs s' = c_funcptrs s)
      \<or> (\<exists>fname. c_funcptrs s fname = None \<and> trace s' = trace s @ [Resolve fname]
            \<and> c_funcptrs s' = (case resolve_symbol h fname of
                                  None \<Rightarrow> c_funcptrs s
                                | Some a \<Rightarrow> (c_funcptrs s)(fname \<mapsto> a)))"
  using assms
  by (auto simp: CObjectProxy_getattr_def log_event_def Let_def
           split: option.splits prod.splits)

lemma lookup_effect:
  assumes "lookup h attr obj s = (r, obj', s')"
  shows "(trace s' = trace s \<and> c_funcptrs s' = c_funcptrs s)
      \<or> (\<exists>fname. c_funcptrs s fname = None \<and> trace s' = trace s @ [Resolve fname]
            \<and> c_funcptrs s' = (case resolve_symbol h fname of
                                  None \<Rightarrow> c_funcptrs s
                                | Some a \<Rightarrow> (c_funcptrs s)(fname \<mapsto> a)))"
proof (cases obj)
  case (CObj c)
  show ?thesis
  proof (cases "dict c attr")
    case None
    with assms CObj obtain c' where "CObjectProxy_getattr h attr c s = (r, c', s')"
      by (auto simp: lookup_def CObjectProxy_lookup_def split: prod.splits)
    then show ?thesis by (rule CObjectProxy_getattr_effect)
  next
    case (Some w)
    with assms CObj show ?thesis by (auto simp: lookup_def CObjectProxy_lookup_def)
  qed
next
  case (QObj p)
  show ?thesis
  proof (cases "dict p attr")
    case (Some w)
    with assms QObj show ?thesis by (auto simp: lookup_def QObjectProxy_lookup_def)
  next
    case None
    with assms QObj obtain p' where g: "QObjectProxy_getattr h attr p s = (r, p', s')"
      by (auto simp: lookup_def QObjectProxy_lookup_def split: prod.splits)
    show ?thesis
    proof (cases "\<exists>names. q_methods s (q_meta_object p) = Some names \<and> attr \<notin> set names
                     \<and> c_api p attr \<noteq> None")
      case True
      with g have "CObjectProxy_getattr h attr p s = (r, p', s')"
        by (auto simp: QObjectProxy_getattr_def)
      then show ?thesis by (rule CObjectProxy_getattr_effect)
    next
      case False
      with g have "trace s' = trace s \<and> c_funcptrs s' = c_funcptrs s"
        by (auto simp: QObjectProxy_getattr_def Let_def split: option.splits if_splits)
      then show ?thesis by simp
    qed
  qed
qed

lemma lookup_resolves_once:
  assumes "resolve_symbol h name = Some a"
    and "lookup h attr obj s = (r, obj', s')"
    and "resolutions name (trace s) \<le> 1"
    and "c_funcptrs s name = None \<longrightarrow> resolutions name (trace s) = 0"
  shows "resolutions name (trace s') \<le> 1
         \<and> (c_funcptrs s' name = None \<longrightarrow> resolutions name (trace s') = 0)"
proof -
  from lookup_effect [OF assms(2)]
  consider "trace s' = trace s" "c_funcptrs s' = c_funcptrs s"
    | fname where "c_funcptrs s fname = None" "trace s' = trace s @ [Resolve fname]"
        "c_funcptrs s' = (case resolve_symbol h fname of
                             None \<Rightarrow> c_funcptrs s
                           | Some a \<Rightarrow> (c_funcptrs s)(fname \<mapsto> a))"
    by blast
  then show ?thesis
  proof cases
    case 1
    with assms show ?thesis by simp
  next
    case 2
    show ?thesis
    proof (cases "fname = name")
      case True
      with 2 assms have "resolutions name (trace s') = 1" "c_funcptrs s' name = Some a"
        by simp_all
      then show ?thesis by simp
    next
      case False
      with 2 have "resolutions name (trace s') = resolutions name (trace s)"
        "c_funcptrs s' name = c_funcptrs s name"
        by (simp_all split: option.splits)
      with assms show ?thesis by simp
    qed
  qed
qed

lemma run_lookups_resolves_once:
  assumes "resolve_symbol h name = Some a"
  shows "resolutions name (trace s) \<le> 1 \<Longrightarrow>
         (c_funcptrs s name = None \<longrightarrow> resolutions name (trace s) = 0) \<Longrightarrow>
         resolutions name (trace (snd (run_lookups h ops objs s))) \<le> 1"
proof (induction ops arbitrary: objs s)
  case Nil
  then show ?case by simp
next
  case (Cons op ops)
  obtain i attr where op: "op = (i, attr)" by (cases op)
  show ?case
  proof (cases "i < length objs")
    case False
    with op Cons show ?thesis by simp
  next
    case True
    obtain r obj' s' where l: "lookup h attr (objs ! i) s = (r, obj', s')"
      by (cases "lookup h attr (objs ! i) s")
    from lookup_resolves_once [OF assms l Cons.prems(1) Cons.prems(2)]
    have "resolutions name (trace s') \<le> 1"
      and "c_funcptrs s' name = None \<longrightarrow> resolutions name (trace s') = 0"
      by simp_all
    then have "resolutions name (trace (snd (run_lookups h ops (objs[i := obj']) s'))) \<le> 1"
      by (rule Cons.IH)
    with op True l show ?thesis by simp
  qed
qed

text \<open>
  C7, as the code has it. A lookup on a \<open>_CObjectProxy\<close> that succeeds leaves the value it
  returned stored on the instance under the looked-up name, and every later lookup of that
  name on the instance, in whatever state of the module, returns that same value (for a
  method proxy: the identical object) and changes neither the instance nor the state. The
  same holds on a \<open>_QObjectProxy\<close> for a name that is stored already, is a Qt meta-method
  name or is a key of the C API table; for any other name the lookup hands back what the
  wrapped Qt object gives and stores nothing. Over any run of lookups on any collection
  of instances, a symbol that the host resolves and that has not been resolved before the
  run is resolved at most once. A symbol that does not resolve is not cached: the lookup
  raises and leaves instance and cache as they were, so the next lookup resolves it again.
\<close>

theorem lookup_is_idempotent:
  "(CObjectProxy_lookup h attr c s = (Inr v, c', s') \<longrightarrow>
      dict c' attr = Some v \<and> CObjectProxy_lookup h attr c' s'' = (Inr v, c', s''))
   \<and> (QObjectProxy_lookup h attr p s = (Inr v, p', s')
        \<and> (dict p attr \<noteq> None
            \<or> (\<exists>names. q_methods s (q_meta_object p) = Some names \<and> attr \<in> set names)
            \<or> c_api p attr \<noteq> None) \<longrightarrow>
      dict p' attr = Some v \<and> QObjectProxy_lookup h attr p' s'' = (Inr v, p', s''))
   \<and> (dict p attr = None \<and> q_methods s (q_meta_object p) = Some names
        \<and> attr \<notin> set names \<and> c_api p attr = None \<longrightarrow>
      QObjectProxy_lookup h attr p s = (q_getattr h (q_object p) attr, p, s))
   \<and> (resolve_symbol h name \<noteq> None \<and> resolutions name (trace s) = 0 \<longrightarrow>
      resolutions name (trace (snd (run_lookups h ops objs s))) \<le> 1)
   \<and> (dict c attr = None \<and> c_api c attr = Some (fname, fsig)
        \<and> c_funcptrs s fname = None \<and> resolve_symbol h fname = None \<longrightarrow>
      CObjectProxy_lookup h attr c s =
        (Inl (AttributeError (''Symbol '' @ fname @ '' is not defined'')), c,
         s\<lparr>trace := trace s @ [Resolve fname]\<rparr>))"
proof (intro conjI impI)
  assume a: "CObjectProxy_lookup h attr c s = (Inr v, c', s')"
  then show "dict c' attr = Some v" by (rule CObjectProxy_lookup_stores)
  then show "CObjectProxy_lookup h attr c' s'' = (Inr v, c', s'')"
    by (simp add: CObjectProxy_lookup_def)
next
  assume a: "QObjectProxy_lookup h attr p s = (Inr v, p', s')
        \<and> (dict p attr \<noteq> None
            \<or> (\<exists>names. q_methods s (q_meta_object p) = Some names \<and> attr \<in> set names)
            \<or> c_api p attr \<noteq> None)"
  then have l: "QObjectProxy_lookup h attr p s = (Inr v, p', s')"
    and d: "dict p attr \<noteq> None
            \<or> (\<exists>names. q_methods s (q_meta_object p) = Some names \<and> attr \<in> set names)
            \<or> c_api p attr \<noteq> None"
    by simp_all
  from l d show "dict p' attr = Some v" by (rule QObjectProxy_lookup_stores)
  then show "QObjectProxy_lookup h attr p' s'' = (Inr v, p', s'')"
    by (simp add: QObjectProxy_lookup_def)
next
  assume "dict p attr = None \<and> q_methods s (q_meta_object p) = Some names
        \<and> attr \<notin> set names \<and> c_api p attr = None"
  then show "QObjectProxy_lookup h attr p s = (q_getattr h (q_object p) attr, p, s)"
    by (simp add: QObjectProxy_lookup_def QObjectProxy_getattr_def)
next
  assume a: "resolve_symbol h name \<noteq> None \<and> resolutions name (trace s) = 0"
  then obtain a' where r: "resolve_symbol h name = Some a'" by auto
  from a have "resolutions name (trace s) \<le> 1"
    and "c_funcptrs s name = None \<longrightarrow> resolutions name (trace s) = 0"
    by simp_all
  with r show "resolutions name (trace (snd (run_lookups h ops objs s))) \<le> 1"
    by (rule run_lookups_resolves_once)
next
  assume "dict c attr = None \<and> c_api c attr = Some (fname, fsig)
        \<and> c_funcptrs s fname = None \<and> resolve_symbol h fname = None"
  then show "CObjectProxy_lookup h attr c s =
        (Inl (AttributeError (''Symbol '' @ fname @ '' is not defined'')), c,
         s\<lparr>trace := trace s @ [Resolve fname]\<rparr>)"
    by (simp add: CObjectProxy_lookup_def CObjectProxy_getattr_unresolved)
qed

lemma example_alloc_lookup:
  "CObjectProxy_lookup example_host ''alloc'' example_cobject (fresh_state 100 200) =
     (Inr (CMethodProxy 0 (CFunc (CFUNCTYPE (Some c_void_p) [c_void_p, c_int]) 4096) (PyInt 1)),
      example_cobject\<lparr>dict := [''alloc'' \<mapsto>
         CMethodProxy 0 (CFunc (CFUNCTYPE (Some c_void_p) [c_void_p, c_int]) 4096) (PyInt 1)]\<rparr>,
      (fresh_state 100 200)\<lparr>c_funcptrs := [''_Znwm'' \<mapsto> 4096], next_ref := 1,
         trace := [Resolve ''_Znwm'']\<rparr>)"
  by (simp add: CObjectProxy_lookup_def CObjectProxy_getattr_def log_event_def Let_def
        example_cobject_def fresh_state_def example_host_def)

theorem lookup_is_idempotent_witness:
  "CObjectProxy_lookup example_host ''alloc''
       (example_cobject\<lparr>dict := [''alloc'' \<mapsto>
          CMethodProxy 0 (CFunc (CFUNCTYPE (Some c_void_p) [c_void_p, c_int]) 4096) (PyInt 1)]\<rparr>)
       ((fresh_state 100 200)\<lparr>c_funcptrs := [''_Znwm'' \<mapsto> 4096], next_ref := 1,
          trace := [Resolve ''_Znwm'']\<rparr>) =
     (Inr (CMethodProxy 0 (CFunc (CFUNCTYPE (Some c_void_p) [c_void_p, c_int]) 4096) (PyInt 1)),
      example_cobject\<lparr>dict := [''alloc'' \<mapsto>
         CMethodProxy 0 (CFunc (CFUNCTYPE (Some c_void_p) [c_void_p, c_int]) 4096) (PyInt 1)]\<rparr>,
      (fresh_state 100 200)\<lparr>c_funcptrs := [''_Znwm'' \<mapsto> 4096], next_ref := 1,
         trace := [Resolve ''_Znwm'']\<rparr>)
   \<and> resolutions ''_Znwm'' (trace (snd (run_lookups example_host
         [(0, ''alloc''), (1, ''alloc''), (0, ''alloc'')]
         [CObj example_cobject, CObj (example_cobject\<lparr>c_ptr := PyInt 2\<rparr>)]
         (fresh_state 100 200)))) \<le> 1
   \<and> trace (snd (run_lookups example_host
         [(0, ''alloc''), (1, ''alloc''), (0, ''alloc'')]
         [CObj example_cobject, CObj (example_cobject\<lparr>c_ptr := PyInt 2\<rparr>)]
         (fresh_state 100 200))) = [Resolve ''_Znwm'']"
proof -
  note t = lookup_is_idempotent [where h = example_host and attr = "''alloc''"
      and c = example_cobject and s = "fresh_state 100 200"
      and v = "CMethodProxy 0 (CFunc (CFUNCTYPE (Some c_void_p) [c_void_p, c_int]) 4096) (PyInt 1)"
      and c' = "example_cobject\<lparr>dict := [''alloc'' \<mapsto>
         CMethodProxy 0 (CFunc (CFUNCTYPE (Some c_void_p) [c_void_p, c_int]) 4096) (PyInt 1)]\<rparr>"
      and s' = "(fresh_state 100 200)\<lparr>c_funcptrs := [''_Znwm'' \<mapsto> 4096], next_ref := 1,
         trace := [Resolve ''_Znwm'']\<rparr>"
      and s'' = "(fresh_state 100 200)\<lparr>c_funcptrs := [''_Znwm'' \<mapsto> 4096], next_ref := 1,
         trace := [Resolve ''_Znwm'']\<rparr>"
      and name = "''_Znwm''"
      and ops = "[(0, ''alloc''), (1, ''alloc''), (0, ''alloc'')]"
      and objs = "[CObj example_cobject, CObj (example_cobject\<lparr>c_ptr := PyInt 2\<rparr>)]"]
  have r: "resolve_symbol example_host ''_Znwm'' \<noteq> None"
    "resolutions ''_Znwm'' (trace (fresh_state 100 200)) = 0"
    by (simp_all add: example_host_def fresh_state_def)
  have run: "trace (snd (run_lookups example_host
         [(0, ''alloc''), (1, ''alloc''), (0, ''alloc'')]
         [CObj example_cobject, CObj (example_cobject\<lparr>c_ptr := PyInt 2\<rparr>)]
         (fresh_state 100 200))) = [Resolve ''_Znwm'']"
    by (simp add: lookup_def CObjectProxy_lookup_def CObjectProxy_getattr_def log_event_def
          Let_def example_cobject_def fresh_state_def example_host_def)
  from t example_alloc_lookup r run show ?thesis by simp
qed

theorem lookup_resolves_again_counterexample:
  "trace (snd (run_lookups example_host [(0, ''f''), (0, ''f'')] [CObj example_cobject]
      (fresh_state 100 200))) = [Resolve ''nosuch'', Resolve ''nosuch'']
   \<and> resolutions ''nosuch'' (trace (snd (run_lookups example_host [(0, ''f''), (0, ''f'')]
        [CObj example_cobject] (fresh_state 100 200)))) = 2
   \<and> QObjectProxy_lookup example_host ''show'' (q example_window) window_state =
       (Inr (PyQObject 5), q example_window, window_state)
   \<and> dict (q example_window) ''show'' = None"
proof -
  have run: "trace (snd (run_lookups example_host [(0, ''f''), (0, ''f'')] [CObj example_cobject]
      (fresh_state 100 200))) = [Resolve ''nosuch'', Resolve ''nosuch'']"
    by (simp add: lookup_def CObjectProxy_lookup_def CObjectProxy_getattr_def log_event_def
          Let_def example_cobject_def fresh_state_def example_host_def)
  have show_: "QObjectProxy_lookup example_host ''show'' (q example_window) window_state =
       (Inr (PyQObject 5), q example_window, window_state)"
    by (simp add: QObjectProxy_lookup_def QObjectProxy_getattr_def example_window_def
          window_state_def fresh_state_def MainWindow_c_api_def example_host_def)
  have d: "dict (q example_window) ''show'' = None"
    by (simp add: example_window_def)
  from run show_ d show ?thesis by (simp add: resolutions_def)
qed

section \<open>Module-level state\<close>

lemma callback_events_simps [simp]:
  "callback_events [] = []"
  "callback_events (tr @ tr') = callback_events tr @ callback_events tr'"
  "callback_events (InitCallback cb obj # tr) = InitCallback cb obj # callback_events tr"
  "callback_events (LogError # tr) = callback_events tr"
  "callback_events (ConnectDestroyed w # tr) = callback_events tr"
  by (simp_all add: callback_events_def is_InitCallback_def)








end
